theory Spec2Isabelle
  imports Complex_Main "HOL-Library.Char_ord"
begin

section \<open>Python values of the notebook\<close>

text \<open>
  The notebook \<^verbatim>\<open>1_Monitoring_your_TensorFlow_scripts.ipynb\<close> builds its data from
  string literals, lists and dict literals. A dict literal is kept as the list of its
  items in source order (no literal of the notebook repeats a key).
\<close>

datatype pyval =
    PStr string
  | PInt int
  | PList "pyval list"
  | PDict "(string \<times> pyval) list"

definition backslash :: char where
  "backslash = CHR 0x5C"

definition quote :: char where
  "quote = CHR 0x27"

text \<open>
  The markdown example of the second cell:
  \<^verbatim>\<open>metric_definitions=[{'Name': 'train:error', 'Regex': 'Train_error=(.*?);'},
                      {'Name': 'validation:error', 'Regex': 'Valid_error=(.*?);'}]\<close>
\<close>

definition example_metric_definitions :: pyval where
  "example_metric_definitions = PList
     [PDict [(''Name'', PStr ''train:error''), (''Regex'', PStr ''Train_error=(.*?);'')],
      PDict [(''Name'', PStr ''validation:error''), (''Regex'', PStr ''Valid_error=(.*?);'')]]"

text \<open>
  The solution list of the first code cell. The Python literal \<^verbatim>\<open>'[0-9\\.]+'\<close> denotes
  the string with one backslash before the dot.
\<close>

definition number_class :: string where
  "number_class = ''[0-9'' @ [backslash] @ ''.]+''"

definition metric_definitions :: pyval where
  "metric_definitions = PList
     [PDict [(''Name'', PStr ''train:loss''),
             (''Regex'', PStr (''loss: ('' @ number_class @ '') - acc: '' @ number_class))],
      PDict [(''Name'', PStr ''train:accuracy''),
             (''Regex'', PStr (''loss: '' @ number_class @ '' - acc: ('' @ number_class @ '')''))],
      PDict [(''Name'', PStr ''validation:accuracy''),
             (''Regex'', PStr (''val_loss: '' @ number_class @ '' - val_acc: ('' @ number_class @ '')''))],
      PDict [(''Name'', PStr ''validation:loss''),
             (''Regex'', PStr (''val_loss: ('' @ number_class @ '') - val_acc: '' @ number_class))]]"

fun items :: "pyval \<Rightarrow> pyval list" where
  "items (PList xs) = xs"
| "items _ = []"

fun dict_keys :: "pyval \<Rightarrow> string list" where
  "dict_keys (PDict kvs) = map fst kvs"
| "dict_keys _ = []"

fun str_field :: "pyval \<Rightarrow> string \<Rightarrow> string option" where
  "str_field (PDict kvs) k = (case map_of kvs k of Some (PStr v) \<Rightarrow> Some v | _ \<Rightarrow> None)"
| "str_field _ k = None"

section \<open>Regular expressions\<close>

text \<open>
  The patterns are read by a regular-expression engine outside the notebook. The model
  covers the part of the pattern language the notebook's six patterns are written in:
  literal characters, backslash escapes of punctuation, the dot, character sets with
  ranges, capturing groups, and the repeats \<^verbatim>\<open>*\<close>, \<^verbatim>\<open>+\<close>, \<^verbatim>\<open>?\<close> with their lazy
  forms. Every other construct is reported as \<open>Unsupported\<close>, never guessed.
\<close>

datatype re =
    Eps
  | Lit char
  | Dot
  | Cls "(char \<times> char) list"
  | Cat re re
  | Grp nat re
  | Star bool re
  | Plus bool re
  | Opt bool re

datatype re_error =
    BadEscape
  | UnterminatedSet
  | BadRange
  | UnbalancedParen
  | MissingParen
  | NothingToRepeat
  | MultipleRepeat
  | Unsupported

datatype sym = Raw char | Esc char

fun unescape :: "string \<Rightarrow> re_error + sym list" where
  "unescape [] = Inr []"
| "unescape (c # cs) =
     (if c = backslash then
        (case cs of
           [] \<Rightarrow> Inl BadEscape
         | d # ds \<Rightarrow> (case unescape ds of Inl e \<Rightarrow> Inl e | Inr ss \<Rightarrow> Inr (Esc d # ss)))
      else (case unescape cs of Inl e \<Rightarrow> Inl e | Inr ss \<Rightarrow> Inr (Raw c # ss)))"

definition alnum :: "char \<Rightarrow> bool" where
  "alnum c \<longleftrightarrow> (CHR ''0'' \<le> c \<and> c \<le> CHR ''9'') \<or> (CHR ''a'' \<le> c \<and> c \<le> CHR ''z'')
     \<or> (CHR ''A'' \<le> c \<and> c \<le> CHR ''Z'')"

text \<open>The character a symbol stands for; an escaped letter or digit is a class or a
  back-reference, which the model does not cover.\<close>

fun sym_char :: "sym \<Rightarrow> re_error + char" where
  "sym_char (Raw c) = Inr c"
| "sym_char (Esc c) = (if alnum c then Inl Unsupported else Inr c)"

datatype tok = TAtom re | TOpen | TClose | TStar | TPlus | TQuest

text \<open>
  The lexer. Its first argument is \<open>None\<close> outside a character set and \<open>Some rs\<close> inside
  one, with the ranges read so far (latest first).
\<close>

fun lex :: "(char \<times> char) list option \<Rightarrow> sym list \<Rightarrow> re_error + tok list" where
  "lex None [] = Inr []"
| "lex (Some rs) [] = Inl UnterminatedSet"
| "lex None (s # ss) =
     (case s of
        Esc c \<Rightarrow> (if alnum c then Inl Unsupported
                  else (case lex None ss of Inl e \<Rightarrow> Inl e | Inr ts \<Rightarrow> Inr (TAtom (Lit c) # ts)))
      | Raw c \<Rightarrow>
          (if c = CHR ''['' then lex (Some []) ss
           else if c \<in> set ''|^${'' then Inl Unsupported
           else (case lex None ss of
                   Inl e \<Rightarrow> Inl e
                 | Inr ts \<Rightarrow> Inr ((if c = CHR ''.'' then TAtom Dot
                                 else if c = CHR ''('' then TOpen
                                 else if c = CHR '')'' then TClose
                                 else if c = CHR ''*'' then TStar
                                 else if c = CHR ''+'' then TPlus
                                 else if c = CHR ''?'' then TQuest
                                 else TAtom (Lit c)) # ts))))"
| "lex (Some rs) (s # ss) =
     (if s = Raw CHR '']'' then
        (if rs = [] then Inl Unsupported
         else (case lex None ss of Inl e \<Rightarrow> Inl e | Inr ts \<Rightarrow> Inr (TAtom (Cls (rev rs)) # ts)))
      else if s = Raw CHR ''^'' \<and> rs = [] then Inl Unsupported
      else
        (case sym_char s of
           Inl e \<Rightarrow> Inl e
         | Inr c \<Rightarrow>
             (case ss of
                Raw m # h # ss' \<Rightarrow>
                  (if m = CHR ''-'' \<and> h \<noteq> Raw CHR '']'' then
                     (case sym_char h of
                        Inl e \<Rightarrow> Inl e
                      | Inr d \<Rightarrow> if c \<le> d then lex (Some ((c, d) # rs)) ss' else Inl BadRange)
                   else lex (Some ((c, c) # rs)) ss)
              | _ \<Rightarrow> lex (Some ((c, c) # rs)) ss)))"

definition seq :: "re list \<Rightarrow> re" where
  "seq rs = foldr Cat rs Eps"

text \<open>
  The parser keeps the items of the sequence being read (latest first) and a stack of
  the open groups: the number of each with the items read before it opened. Groups are
  numbered from 1 by their opening parenthesis.
\<close>

fun lazy :: "re \<Rightarrow> re_error + re" where
  "lazy (Star g a) = (if g then Inr (Star False a) else Inl MultipleRepeat)"
| "lazy (Plus g a) = (if g then Inr (Plus False a) else Inl MultipleRepeat)"
| "lazy (Opt g a) = (if g then Inr (Opt False a) else Inl MultipleRepeat)"
| "lazy r = Inr (Opt True r)"

fun is_repeat :: "re \<Rightarrow> bool" where
  "is_repeat (Star g a) = True"
| "is_repeat (Plus g a) = True"
| "is_repeat (Opt g a) = True"
| "is_repeat r = False"

fun parse :: "(nat \<times> re list) list \<Rightarrow> re list \<Rightarrow> nat \<Rightarrow> tok list \<Rightarrow> re_error + re" where
  "parse stk cur n [] = (if stk = [] then Inr (seq (rev cur)) else Inl MissingParen)"
| "parse stk cur n (TAtom a # ts) = parse stk (a # cur) n ts"
| "parse stk cur n (TOpen # ts) = parse ((n, cur) # stk) [] (Suc n) ts"
| "parse stk cur n (TClose # ts) =
     (case stk of
        [] \<Rightarrow> Inl UnbalancedParen
      | (i, outer) # stk' \<Rightarrow> parse stk' (Grp i (seq (rev cur)) # outer) n ts)"
| "parse stk cur n (TStar # ts) =
     (case cur of
        [] \<Rightarrow> Inl NothingToRepeat
      | r # rs \<Rightarrow> if is_repeat r then Inl MultipleRepeat else parse stk (Star True r # rs) n ts)"
| "parse stk cur n (TPlus # ts) =
     (case cur of
        [] \<Rightarrow> Inl NothingToRepeat
      | r # rs \<Rightarrow> if is_repeat r then Inl MultipleRepeat else parse stk (Plus True r # rs) n ts)"
| "parse stk cur n (TQuest # ts) =
     (case cur of
        [] \<Rightarrow> Inl (if stk = [] then NothingToRepeat else Unsupported)
      | r # rs \<Rightarrow> (case lazy r of Inl e \<Rightarrow> Inl e | Inr r' \<Rightarrow> parse stk (r' # rs) n ts))"

definition compile_re :: "string \<Rightarrow> re_error + re" where
  "compile_re p =
     (case unescape p of
        Inl e \<Rightarrow> Inl e
      | Inr ss \<Rightarrow> (case lex None ss of Inl e \<Rightarrow> Inl e | Inr ts \<Rightarrow> parse [] [] 1 ts))"

primrec groups :: "re \<Rightarrow> nat" where
  "groups Eps = 0"
| "groups (Lit c) = 0"
| "groups Dot = 0"
| "groups (Cls rs) = 0"
| "groups (Cat a b) = groups a + groups b"
| "groups (Grp i a) = Suc (groups a)"
| "groups (Star g a) = groups a"
| "groups (Plus g a) = groups a"
| "groups (Opt g a) = groups a"

definition capture_groups :: "string \<Rightarrow> nat option" where
  "capture_groups p = (case compile_re p of Inl e \<Rightarrow> None | Inr r \<Rightarrow> Some (groups r))"

text \<open>A record of a metric-definition list as the job-submission interface takes it:
  the two fields \<^verbatim>\<open>Name\<close> and \<^verbatim>\<open>Regex\<close>, both strings, and a pattern with one
  capturing group.\<close>

definition metric_record :: "pyval \<Rightarrow> bool" where
  "metric_record d \<longleftrightarrow>
     length (dict_keys d) = 2 \<and> set (dict_keys d) = {''Name'', ''Regex''} \<and>
     str_field d ''Name'' \<noteq> None \<and>
     (case str_field d ''Regex'' of None \<Rightarrow> False | Some p \<Rightarrow> capture_groups p = Some 1)"

definition names :: "pyval \<Rightarrow> string option list" where
  "names ds = map (\<lambda>d. str_field d ''Name'') (items ds)"

section \<open>Matching\<close>

text \<open>
  A backtracking matcher in the order a search takes its choices: a state is the rest of
  the line with the groups captured so far, and \<open>matches r x\<close> lists the states in
  which \<open>r\<close> can end from \<open>x\<close>, the preferred one first. A repeat takes another
  round only when the round consumed a character, so \<open>length\<close> of the rest of the
  line bounds the rounds.
\<close>

type_synonym caps = "nat \<Rightarrow> string option"

type_synonym mstate = "string \<times> caps"

definition one_char :: "(char \<Rightarrow> bool) \<Rightarrow> mstate \<Rightarrow> mstate list" where
  "one_char p x = (case fst x of [] \<Rightarrow> [] | c # t \<Rightarrow> if p c then [(t, snd x)] else [])"

definition in_ranges :: "(char \<times> char) list \<Rightarrow> char \<Rightarrow> bool" where
  "in_ranges rs c = list_ex (\<lambda>(lo, hi). lo \<le> c \<and> c \<le> hi) rs"

primrec rep :: "(mstate \<Rightarrow> mstate list) \<Rightarrow> bool \<Rightarrow> nat \<Rightarrow> mstate \<Rightarrow> mstate list" where
  "rep f g 0 x = [x]"
| "rep f g (Suc n) x =
     (let more = concat (map (rep f g n) (filter (\<lambda>y. length (fst y) < length (fst x)) (f x)))
      in if g then more @ [x] else x # more)"

primrec matches :: "re \<Rightarrow> mstate \<Rightarrow> mstate list" where
  "matches Eps = (\<lambda>x. [x])"
| "matches (Lit c) = one_char (\<lambda>d. d = c)"
| "matches Dot = one_char (\<lambda>d. d \<noteq> CHR 0x0A)"
| "matches (Cls rs) = one_char (in_ranges rs)"
| "matches (Cat a b) = (\<lambda>x. concat (map (matches b) (matches a x)))"
| "matches (Grp i a) =
     (\<lambda>x. map (\<lambda>y. (fst y, (snd y)(i \<mapsto> take (length (fst x) - length (fst y)) (fst x))))
              (matches a x))"
| "matches (Star g a) = (\<lambda>x. rep (matches a) g (length (fst x)) x)"
| "matches (Plus g a) =
     (\<lambda>x. concat (map (\<lambda>y. rep (matches a) g (length (fst y)) y) (matches a x)))"
| "matches (Opt g a) = (\<lambda>x. if g then matches a x @ [x] else x # matches a x)"

text \<open>The leftmost match: the first start position from which the pattern matches,
  and there the preferred way to match.\<close>

fun search_from :: "re \<Rightarrow> string \<Rightarrow> caps option" where
  "search_from r [] = (case matches r ([], Map.empty) of [] \<Rightarrow> None | x # xs \<Rightarrow> Some (snd x))"
| "search_from r (c # cs) =
     (case matches r (c # cs, Map.empty) of [] \<Rightarrow> search_from r cs | x # xs \<Rightarrow> Some (snd x))"

text \<open>The groups of the leftmost match of pattern \<open>p\<close> in \<open>line\<close>, one entry for
  each capturing group of the pattern; \<open>None\<close> when the pattern matches nowhere.\<close>

definition search_groups :: "string \<Rightarrow> string \<Rightarrow> re_error + string option list option" where
  "search_groups p line =
     (case compile_re p of
        Inl e \<Rightarrow> Inl e
      | Inr r \<Rightarrow> Inr (map_option (\<lambda>k. map k [1 ..< Suc (groups r)]) (search_from r line)))"

definition digit :: "char \<Rightarrow> bool" where
  "digit c \<longleftrightarrow> CHR ''0'' \<le> c \<and> c \<le> CHR ''9''"

text \<open>A well-formed decimal number: digits, then optionally a point and digits.\<close>

definition decimal :: "string \<Rightarrow> bool" where
  "decimal s \<longleftrightarrow>
     takeWhile digit s \<noteq> [] \<and>
     (case dropWhile digit s of
        [] \<Rightarrow> True
      | c # fs \<Rightarrow> c = CHR ''.'' \<and> fs \<noteq> [] \<and> list_all digit fs)"

text \<open>
  The notebook prints no log line of its own; it sends the reader to the job's logs. The
  patterns are written for the line Keras prints at the end of an epoch, such as
  \<^verbatim>\<open>156/156 [=====] - 47s 303ms/step - loss: 1.8994 - acc: 0.3003 - val_loss: 1.5560 - val_acc: 0.4298\<close>:
  the four numbers \<open>a\<close>, \<open>b\<close>, \<open>c\<close>, \<open>d\<close> after whatever the progress bar printed
  before them.
\<close>

definition keras_line :: "string \<Rightarrow> string \<Rightarrow> string \<Rightarrow> string \<Rightarrow> string \<Rightarrow> string" where
  "keras_line pre a b c d =
     pre @ ''loss: '' @ a @ '' - acc: '' @ b @ '' - val_loss: '' @ c @ '' - val_acc: '' @ d"

text \<open>What each record of a metric-definition list extracts from a log line.\<close>

definition captures :: "pyval \<Rightarrow> string \<Rightarrow> (re_error + string option list option) option list" where
  "captures ds line =
     map (\<lambda>d. map_option (\<lambda>p. search_groups p line) (str_field d ''Regex'')) (items ds)"

section \<open>The objects of the SDK and of the experiment service\<close>

text \<open>
  The notebook calls into the training SDK, the experiment SDK and the clock. Their
  answers are inputs of the model (\<open>world\<close>); the objects they return keep the attributes
  the notebook reads. The model follows the runs in which the services answer: the one
  refusal it has is the request check of \<^verbatim>\<open>estimator.fit\<close>, which depends on what the
  notebook passes.
\<close>

record session =
  boto_region_name :: string

record experiment_obj =
  experiment_name :: string

record trial =
  trial_name :: string
  trial_experiment_name :: string

record training_job =
  job_name :: string

record estimator =
  metric_definitions_arg :: "pyval option"
  model_dir :: string
  latest_training_job :: "training_job option"

record trial_component =
  tc_experiment :: "string option"
  tc_trial :: "string option"
  tc_display_name :: "string option"
  tc_job :: string

record fit_call =
  fit_estimator :: estimator
  fit_inputs :: pyval
  fit_experiment_config :: pyval
  fit_wait :: "bool option"

datatype event =
    SessionCreated
  | RoleRequested
  | ExperimentLoaded string
  | TrialCreated string string
  | DataUploaded string string
  | JobSubmitted fit_call
  | AnalyticsQueried string pyval

datatype display =
    Text string
  | Markdown string
  | Table "trial_component list"

record world =
  w_region :: string
  w_role :: string
  w_experiment :: "string \<Rightarrow> experiment_obj"
  w_time :: "nat \<Rightarrow> real"
  w_upload :: string
  w_job :: "nat \<Rightarrow> string \<times> string"
  w_components :: "trial_component list"

text \<open>
  The two cells \<^verbatim>\<open>estimator = ...\<close> are left to the reader of the notebook. What the
  reader writes there is a parameter; the first cell's comment fixes one argument,
  \<^verbatim>\<open>metric_definitions=metric_definitions\<close>. The second cell has no comment: the
  reader passes the notebook's list again or passes none (\<open>h_metrics_2\<close>).
\<close>

record holes =
  h_estimator_1 :: estimator
  h_estimator_2 :: estimator
  h_metrics_2 :: bool

section \<open>The state of the notebook\<close>

datatype error =
    NameError string
  | AttributeError string
  | ParamValidationError
  | OutsideModel string

record nb =
  v_metric_definitions :: "pyval option"
  v_sagemaker_session :: "session option"
  v_role :: "string option"
  v_cifar10_experiment :: "experiment_obj option"
  v_trial_name :: "string option"
  v_trial :: "trial option"
  v_dataset_location :: "string option"
  v_estimator :: "estimator option"
  v_link :: "string option"
  v_search_expression :: "pyval option"
  v_table :: "trial_component list option"
  out :: "display list"
  calls :: "event list"
  clock_reads :: nat
  jobs :: nat
  components :: "trial_component list"

definition fresh :: "world \<Rightarrow> nb" where
  "fresh w = \<lparr>v_metric_definitions = None, v_sagemaker_session = None, v_role = None,
     v_cifar10_experiment = None, v_trial_name = None, v_trial = None,
     v_dataset_location = None, v_estimator = None, v_link = None,
     v_search_expression = None, v_table = None, out = [], calls = [],
     clock_reads = 0, jobs = 0, components = w_components w\<rparr>"

text \<open>Reading a variable that no cell has assigned raises \<^verbatim>\<open>NameError\<close>.\<close>

definition var :: "string \<Rightarrow> 'a option \<Rightarrow> error + 'a" where
  "var name v = (case v of None \<Rightarrow> Inl (NameError name) | Some x \<Rightarrow> Inr x)"

definition and_then :: "error + 'a \<Rightarrow> ('a \<Rightarrow> error + 'b) \<Rightarrow> error + 'b" where
  "and_then r f = (case r of Inl e \<Rightarrow> Inl e | Inr x \<Rightarrow> f x)"

subsection \<open>Numbers to text\<close>

text \<open>\<^verbatim>\<open>int(x)\<close> of a float cuts the fraction off; an f-string prints the integer in
  decimal.\<close>

definition py_int :: "real \<Rightarrow> int" where
  "py_int x = (if x < 0 then \<lceil>x\<rceil> else \<lfloor>x\<rfloor>)"

fun str_nat :: "nat \<Rightarrow> string" where
  "str_nat n =
     (if n < 10 then [''0123456789'' ! n]
      else str_nat (n div 10) @ [''0123456789'' ! (n mod 10)])"

definition str_int :: "int \<Rightarrow> string" where
  "str_int i = (if i < 0 then CHR ''-'' # str_nat (nat (- i)) else str_nat (nat i))"

text \<open>The text of a Python integer: an optional sign and at least one digit.\<close>

definition integer_text :: "string \<Rightarrow> bool" where
  "integer_text s \<longleftrightarrow>
     (case s of
        [] \<Rightarrow> False
      | c # cs \<Rightarrow> if c = CHR ''-'' then cs \<noteq> [] \<and> list_all digit cs else list_all digit (c # cs))"

text \<open>Reading the text of an integer back: the number a decimal text stands for.\<close>

definition digit_value :: "char \<Rightarrow> nat" where
  "digit_value c = of_char c - 48"

definition nat_of_text :: "string \<Rightarrow> nat" where
  "nat_of_text s = foldl (\<lambda>n c. 10 * n + digit_value c) 0 s"

definition int_of_text :: "string \<Rightarrow> int" where
  "int_of_text s =
     (case s of
        [] \<Rightarrow> 0
      | c # cs \<Rightarrow> if c = CHR ''-'' then - int (nat_of_text cs) else int (nat_of_text (c # cs)))"

section \<open>The cells\<close>

text \<open>
  Each code cell is a function on the state that returns the new state or the
  exception the cell raises. A run stops at the first exception.
\<close>

text \<open>\<^verbatim>\<open>metric_definitions = [...]\<close>, for any list literal in the place of the
  notebook's own.\<close>

definition cell_metric_definitions :: "pyval \<Rightarrow> nb \<Rightarrow> error + nb" where
  "cell_metric_definitions md s = Inr (s\<lparr>v_metric_definitions := Some md\<rparr>)"

text \<open>\<^verbatim>\<open>sagemaker_session = sagemaker.Session(); role = get_execution_role()\<close>\<close>

definition cell_session :: "world \<Rightarrow> nb \<Rightarrow> error + nb" where
  "cell_session w s =
     Inr (s\<lparr>v_sagemaker_session := Some \<lparr>boto_region_name = w_region w\<rparr>,
            v_role := Some (w_role w),
            calls := calls s @ [SessionCreated, RoleRequested]\<rparr>)"

text \<open>\<^verbatim>\<open>cifar10_experiment = Experiment.load(experiment_name="TensorFlow-cifar10-experiment")\<close>\<close>

definition cell_experiment :: "world \<Rightarrow> nb \<Rightarrow> error + nb" where
  "cell_experiment w s =
     Inr (s\<lparr>v_cifar10_experiment := Some (w_experiment w ''TensorFlow-cifar10-experiment''),
            calls := calls s @ [ExperimentLoaded ''TensorFlow-cifar10-experiment'']\<rparr>)"

text \<open>
  \<^verbatim>\<open>trial_name = f"cifar10-training-job-{int(time.time())}"
  trial = Trial.create(trial_name=trial_name,
                       experiment_name=cifar10_experiment.experiment_name)\<close>
  The cell stands twice in the notebook, before each training job.
\<close>

definition cell_trial :: "world \<Rightarrow> nb \<Rightarrow> error + nb" where
  "cell_trial w s =
     (let name = ''cifar10-training-job-'' @ str_int (py_int (w_time w (clock_reads s))) in
      and_then (var ''cifar10_experiment'' (v_cifar10_experiment s)) (\<lambda>e.
        Inr (s\<lparr>v_trial_name := Some name,
               v_trial := Some \<lparr>trial_name = name, trial_experiment_name = experiment_name e\<rparr>,
               clock_reads := Suc (clock_reads s),
               calls := calls s @ [TrialCreated name (experiment_name e)]\<rparr>)))"

text \<open>
  \<^verbatim>\<open>dataset_location = sagemaker_session.upload_data(path='data', key_prefix='data/DEMO-cifar10')
  display(dataset_location)\<close>
\<close>

definition cell_upload :: "world \<Rightarrow> nb \<Rightarrow> error + nb" where
  "cell_upload w s =
     and_then (var ''sagemaker_session'' (v_sagemaker_session s)) (\<lambda>ses.
       Inr (s\<lparr>v_dataset_location := Some (w_upload w),
              calls := calls s @ [DataUploaded ''data'' ''data/DEMO-cifar10''],
              out := out s @ [Text (w_upload w)]\<rparr>))"

text \<open>\<^verbatim>\<open>estimator = ... # Make sure you use the metric_definitions=metric_definitions argument.\<close>\<close>

definition cell_estimator_1 :: "holes \<Rightarrow> nb \<Rightarrow> error + nb" where
  "cell_estimator_1 h s =
     and_then (var ''metric_definitions'' (v_metric_definitions s)) (\<lambda>md.
       Inr (s\<lparr>v_estimator := Some ((h_estimator_1 h)\<lparr>metric_definitions_arg := Some md\<rparr>)\<rparr>))"

text \<open>\<^verbatim>\<open>estimator = ...\<close>, the second time.\<close>

definition cell_estimator_2 :: "holes \<Rightarrow> nb \<Rightarrow> error + nb" where
  "cell_estimator_2 h s =
     (if h_metrics_2 h then
        and_then (var ''metric_definitions'' (v_metric_definitions s)) (\<lambda>md.
          Inr (s\<lparr>v_estimator := Some ((h_estimator_2 h)\<lparr>metric_definitions_arg := Some md\<rparr>)\<rparr>))
      else Inr (s\<lparr>v_estimator := Some ((h_estimator_2 h)\<lparr>metric_definitions_arg := None\<rparr>)\<rparr>))"

text \<open>
  The notebook gives the value of the argument \<^verbatim>\<open>experiment_config=\<close> in the cell
  before the first call:
  \<^verbatim>\<open>experiment_config={"ExperimentName": cifar10_experiment.experiment_name,
                     "TrialName": trial.trial_name,
                     "TrialComponentDisplayName": "Training"}\<close>
\<close>

definition experiment_config :: "nb \<Rightarrow> error + pyval" where
  "experiment_config s =
     and_then (var ''cifar10_experiment'' (v_cifar10_experiment s)) (\<lambda>e.
     and_then (var ''trial'' (v_trial s)) (\<lambda>t.
       Inr (PDict [(''ExperimentName'', PStr (experiment_name e)),
                   (''TrialName'', PStr (trial_name t)),
                   (''TrialComponentDisplayName'', PStr ''Training'')])))"

definition inputs :: pyval where
  "inputs = PDict [(''train'', PStr ''train_data_location''),
                   (''validation'', PStr ''validation_data_location''),
                   (''eval'', PStr ''eval_data_location'')]"

text \<open>
  Before the request for a training job leaves the machine, the SDK's client checks its
  shape and raises \<^verbatim>\<open>ParamValidationError\<close> when the check fails; no job is submitted
  then. For the metric definitions the check asks for a list of records with exactly
  the members \<^verbatim>\<open>Name\<close> and \<^verbatim>\<open>Regex\<close>, each a string of at least one character. It
  does not read the pattern: whether the string is a regular expression, and how many
  groups it has, is the service's business. An estimator without metric definitions
  sends none.
\<close>

definition metric_shape :: "pyval \<Rightarrow> bool" where
  "metric_shape d \<longleftrightarrow>
     length (dict_keys d) = 2 \<and> set (dict_keys d) = {''Name'', ''Regex''} \<and>
     (case str_field d ''Name'' of None \<Rightarrow> False | Some n \<Rightarrow> n \<noteq> []) \<and>
     (case str_field d ''Regex'' of None \<Rightarrow> False | Some p \<Rightarrow> p \<noteq> [])"

fun request_ok :: "pyval option \<Rightarrow> bool" where
  "request_ok None = True"
| "request_ok (Some (PList ds)) = list_all metric_shape ds"
| "request_ok (Some v) = False"

text \<open>
  \<^verbatim>\<open>estimator.fit({'train': ..., 'validation': ..., 'eval': ...}, experiment_config=...)\<close>,
  with the keyword \<^verbatim>\<open>wait\<close> as the call gives it (\<open>None\<close> when the call leaves it
  out). The call checks the request; then the service names the job and its log
  directory, and records the job as a trial component under the names of the experiment
  configuration. The three strings of the input dictionary are the notebook's
  placeholders for the reader's data locations; the call carries them as written, and
  the model takes the locations the reader puts there to be ones the SDK accepts.
\<close>

definition fit :: "world \<Rightarrow> bool option \<Rightarrow> nb \<Rightarrow> error + nb" where
  "fit w wait s =
     and_then (var ''estimator'' (v_estimator s)) (\<lambda>est.
     and_then (experiment_config s) (\<lambda>cfg.
       if \<not> request_ok (metric_definitions_arg est) then Inl ParamValidationError else
       Inr (s\<lparr>v_estimator := Some (est\<lparr>model_dir := snd (w_job w (jobs s)),
                   latest_training_job := Some \<lparr>job_name = fst (w_job w (jobs s))\<rparr>\<rparr>),
              calls := calls s @ [JobSubmitted \<lparr>fit_estimator = est, fit_inputs = inputs,
                   fit_experiment_config = cfg, fit_wait = wait\<rparr>],
              jobs := Suc (jobs s),
              components := components s @
                [\<lparr>tc_experiment = str_field cfg ''ExperimentName'',
                  tc_trial = str_field cfg ''TrialName'',
                  tc_display_name = str_field cfg ''TrialComponentDisplayName'',
                  tc_job = fst (w_job w (jobs s))\<rparr>]\<rparr>)))"

definition cell_fit_1 :: "world \<Rightarrow> nb \<Rightarrow> error + nb" where
  "cell_fit_1 w = fit w None"

text \<open>The second call ends with \<^verbatim>\<open>wait=False) # Use wait=False to run async jobs\<close>.\<close>

definition cell_fit_2 :: "world \<Rightarrow> nb \<Rightarrow> error + nb" where
  "cell_fit_2 w = fit w (Some False)"

text \<open>The SDK's \<^verbatim>\<open>fit\<close> waits for the job unless it is told not to.\<close>

definition blocking :: "fit_call \<Rightarrow> bool" where
  "blocking c = (case fit_wait c of None \<Rightarrow> True | Some b \<Rightarrow> b)"

text \<open>
  \<^verbatim>\<open>link = 'https://console.aws.amazon.com/cloudwatch/home?region='
         + sagemaker_session.boto_region_name
         + '#metricsV2:query=%7B/aws/sagemaker/TrainingJobs,TrainingJobName%7D%20'
         + estimator.latest_training_job.job_name
  display(Markdown('CloudWatch metrics: [link]('+link+')'))
  display(Markdown('After you choose a metric, change the period to 1 Minute (Graphed Metrics -> Period)'))\<close>
\<close>

definition cell_cloudwatch :: "nb \<Rightarrow> error + nb" where
  "cell_cloudwatch s =
     and_then (var ''sagemaker_session'' (v_sagemaker_session s)) (\<lambda>ses.
     and_then (var ''estimator'' (v_estimator s)) (\<lambda>est.
       (case latest_training_job est of
          None \<Rightarrow> Inl (AttributeError ''job_name'')
        | Some job \<Rightarrow>
            (let link = ''https://console.aws.amazon.com/cloudwatch/home?region=''
                   @ boto_region_name ses
                   @ ''#metricsV2:query=%7B/aws/sagemaker/TrainingJobs,TrainingJobName%7D%20''
                   @ job_name job
             in Inr (s\<lparr>v_link := Some link,
                       out := out s @
                         [Markdown (''CloudWatch metrics: [link]('' @ link @ '')''),
                          Markdown (''After you choose a metric, change the period to 1 Minute ''
                             @ ''(Graphed Metrics -> Period)'')]\<rparr>)))))"

text \<open>
  \<^verbatim>\<open>link = 'AWS_REGION=\''+sagemaker_session.boto_region_name+'\' tensorboard --logdir '
         + estimator.model_dir
  display(Markdown('TensorBoard command: '+link))\<close>
\<close>

definition cell_tensorboard :: "nb \<Rightarrow> error + nb" where
  "cell_tensorboard s =
     and_then (var ''sagemaker_session'' (v_sagemaker_session s)) (\<lambda>ses.
     and_then (var ''estimator'' (v_estimator s)) (\<lambda>est.
       (let link = ''AWS_REGION='' @ [quote] @ boto_region_name ses @ [quote]
              @ '' tensorboard --logdir '' @ model_dir est
        in Inr (s\<lparr>v_link := Some link,
                  out := out s @ [Markdown (''TensorBoard command: '' @ link)]\<rparr>))))"

text \<open>
  \<^verbatim>\<open>search_expression = {"Filters": [{"Name": "DisplayName", "Operator": "Equals",
                                     "Value": "Training"}]}\<close>
\<close>

definition search_expression :: pyval where
  "search_expression =
     PDict [(''Filters'',
             PList [PDict [(''Name'', PStr ''DisplayName''), (''Operator'', PStr ''Equals''),
                           (''Value'', PStr ''Training'')]])]"

definition cell_search_expression :: "nb \<Rightarrow> error + nb" where
  "cell_search_expression s = Inr (s\<lparr>v_search_expression := Some search_expression\<rparr>)"

text \<open>
  The analytics query asks the experiment service for the trial components of one
  experiment that pass every filter of the search expression. The model reads the one
  kind of filter the notebook writes, \<^verbatim>\<open>DisplayName Equals v\<close>; a search expression
  of another shape is outside the model.
\<close>

definition display_name_filter :: "pyval \<Rightarrow> bool" where
  "display_name_filter f \<longleftrightarrow>
     str_field f ''Name'' = Some ''DisplayName'' \<and> str_field f ''Operator'' = Some ''Equals''
     \<and> str_field f ''Value'' \<noteq> None"

definition passes :: "trial_component \<Rightarrow> pyval \<Rightarrow> bool" where
  "passes c f \<longleftrightarrow> tc_display_name c = str_field f ''Value''"

definition analytics :: "string \<Rightarrow> pyval \<Rightarrow> trial_component list \<Rightarrow> trial_component list option" where
  "analytics ex se cs =
     (case se of
        PDict [(k, PList fs)] \<Rightarrow>
          if k = ''Filters'' \<and> list_all display_name_filter fs
          then Some (filter (\<lambda>c. tc_experiment c = Some ex \<and> list_all (passes c) fs) cs)
          else None
      | _ \<Rightarrow> None)"

text \<open>
  \<^verbatim>\<open>trial_component_analytics = ExperimentAnalytics(
      sagemaker_session=sagemaker_session,
      experiment_name=cifar10_experiment.experiment_name,
      search_expression=search_expression)
  table = trial_component_analytics.dataframe(force_refresh=True)
  display(table)\<close>
\<close>

definition cell_analytics :: "nb \<Rightarrow> error + nb" where
  "cell_analytics s =
     and_then (var ''sagemaker_session'' (v_sagemaker_session s)) (\<lambda>ses.
     and_then (var ''cifar10_experiment'' (v_cifar10_experiment s)) (\<lambda>e.
     and_then (var ''search_expression'' (v_search_expression s)) (\<lambda>se.
       (case analytics (experiment_name e) se (components s) of
          None \<Rightarrow> Inl (OutsideModel ''search_expression'')
        | Some rows \<Rightarrow>
            Inr (s\<lparr>v_table := Some rows,
                   calls := calls s @ [AnalyticsQueried (experiment_name e) se],
                   out := out s @ [Table rows]\<rparr>)))))"

section \<open>The notebook\<close>

text \<open>The code cells from top to bottom, with any list in the place of the first
  cell's literal; \<open>notebook\<close> is the notebook as written.\<close>

definition notebook_with :: "pyval \<Rightarrow> world \<Rightarrow> holes \<Rightarrow> (nb \<Rightarrow> error + nb) list" where
  "notebook_with md w h =
     [cell_metric_definitions md, cell_session w, cell_experiment w, cell_trial w,
      cell_upload w, cell_estimator_1 h, cell_fit_1 w, cell_cloudwatch, cell_trial w,
      cell_estimator_2 h, cell_fit_2 w, cell_tensorboard, cell_search_expression,
      cell_analytics]"

definition notebook :: "world \<Rightarrow> holes \<Rightarrow> (nb \<Rightarrow> error + nb) list" where
  "notebook = notebook_with metric_definitions"

fun run_cells :: "(nb \<Rightarrow> error + nb) list \<Rightarrow> nb \<Rightarrow> error + nb" where
  "run_cells [] s = Inr s"
| "run_cells (c # cs) s = (case c s of Inl e \<Rightarrow> Inl e | Inr s' \<Rightarrow> run_cells cs s')"

definition run_with :: "pyval \<Rightarrow> world \<Rightarrow> holes \<Rightarrow> error + nb" where
  "run_with md w h = run_cells (notebook_with md w h) (fresh w)"

definition run :: "world \<Rightarrow> holes \<Rightarrow> error + nb" where
  "run w h = run_cells (notebook w h) (fresh w)"

text \<open>What a finished run leaves to look at.\<close>

definition submitted :: "nb \<Rightarrow> fit_call list" where
  "submitted s = concat (map (\<lambda>e. case e of JobSubmitted c \<Rightarrow> [c] | _ \<Rightarrow> []) (calls s))"

definition created_trials :: "nb \<Rightarrow> (string \<times> string) list" where
  "created_trials s = concat (map (\<lambda>e. case e of TrialCreated n x \<Rightarrow> [(n, x)] | _ \<Rightarrow> []) (calls s))"

definition loaded_experiments :: "nb \<Rightarrow> string list" where
  "loaded_experiments s = concat (map (\<lambda>e. case e of ExperimentLoaded n \<Rightarrow> [n] | _ \<Rightarrow> []) (calls s))"

definition look :: "(nb \<Rightarrow> 'a) \<Rightarrow> error + nb \<Rightarrow> 'a option" where
  "look f r = (case r of Inl e \<Rightarrow> None | Inr s \<Rightarrow> Some (f s))"

definition raised :: "error + nb \<Rightarrow> error option" where
  "raised r = (case r of Inl e \<Rightarrow> Some e | Inr s \<Rightarrow> None)"

text \<open>The state after the first \<open>n\<close> code cells.\<close>

definition upto :: "nat \<Rightarrow> world \<Rightarrow> holes \<Rightarrow> error + nb" where
  "upto n w h = run_cells (take n (notebook w h)) (fresh w)"

text \<open>The trial components the run added to those the service held before.\<close>

definition trained :: "world \<Rightarrow> nb \<Rightarrow> trial_component list" where
  "trained w s = drop (length (w_components w)) (components s)"

text \<open>The state with every copy of the metric-definition list blanked: the variable,
  the estimator's argument, and the estimators of the submitted calls.\<close>

definition drop_metrics :: "estimator \<Rightarrow> estimator" where
  "drop_metrics e = e\<lparr>metric_definitions_arg := None\<rparr>"

definition without_metrics :: "nb \<Rightarrow> nb" where
  "without_metrics s =
     s\<lparr>v_metric_definitions := None,
       v_estimator := map_option drop_metrics (v_estimator s),
       calls := map (\<lambda>e. case e of
                  JobSubmitted c \<Rightarrow> JobSubmitted (c\<lparr>fit_estimator := drop_metrics (fit_estimator c)\<rparr>)
                | _ \<Rightarrow> e) (calls s)\<rparr>"

text \<open>A list with defects: an unterminated character set, and a pattern with two
  groups.\<close>

definition defective_metric_definitions :: pyval where
  "defective_metric_definitions = PList
     [PDict [(''Name'', PStr ''train:loss''), (''Regex'', PStr ''loss: ([0-9'')],
      PDict [(''Name'', PStr ''train:accuracy''), (''Regex'', PStr ''(loss): (acc)'')]]"

text \<open>A list whose second pattern is empty: a pattern with no group at all.\<close>

definition empty_regex_metric_definitions :: pyval where
  "empty_regex_metric_definitions = PList
     [PDict [(''Name'', PStr ''train:loss''), (''Regex'', PStr ''loss: ([0-9.]+)'')],
      PDict [(''Name'', PStr ''train:accuracy''), (''Regex'', PStr [])]]"

subsection \<open>A sample run\<close>

definition earlier_component :: trial_component where
  "earlier_component =
     \<lparr>tc_experiment = Some ''TensorFlow-cifar10-experiment'',
      tc_trial = Some ''cifar10-training-job-1604000000'',
      tc_display_name = Some ''Training'',
      tc_job = ''cifar10-2020-10-29-19-33-20-000''\<rparr>"

definition sample_world :: world where
  "sample_world =
     \<lparr>w_region = ''us-east-1'',
      w_role = ''arn:aws:iam::123456789012:role/SageMakerRole'',
      w_experiment = (\<lambda>n. \<lparr>experiment_name = n\<rparr>),
      w_time = (\<lambda>k. 1604370000.73 + 600 * real k),
      w_upload = ''s3://sagemaker-us-east-1-123456789012/data/DEMO-cifar10'',
      w_job = (\<lambda>k. (''cifar10-job-'' @ str_nat k, ''s3://sagemaker-us-east-1-123456789012/cifar10-job-''
                       @ str_nat k @ ''/model'')),
      w_components = [earlier_component]\<rparr>"

definition sample_holes :: holes where
  "sample_holes =
     \<lparr>h_estimator_1 = \<lparr>metric_definitions_arg = None, model_dir = [], latest_training_job = None\<rparr>,
      h_estimator_2 = \<lparr>metric_definitions_arg = None, model_dir = [],
                       latest_training_job = None\<rparr>,
      h_metrics_2 = True\<rparr>"

text \<open>The filters of a search expression.\<close>

fun filters :: "pyval \<Rightarrow> pyval list" where
  "filters (PDict kvs) = (case map_of kvs ''Filters'' of Some (PList fs) \<Rightarrow> fs | _ \<Rightarrow> [])"
| "filters _ = []"

section \<open>Properties\<close>

declare str_nat.simps [simp del]

lemmas pattern_defs = capture_groups_def compile_re_def backslash_def number_class_def seq_def
  alnum_def

lemmas cell_defs = cell_metric_definitions_def cell_session_def cell_experiment_def
  cell_trial_def cell_upload_def cell_estimator_1_def cell_estimator_2_def cell_fit_1_def
  cell_fit_2_def fit_def experiment_config_def cell_cloudwatch_def cell_tensorboard_def
  cell_search_expression_def cell_analytics_def var_def and_then_def

lemmas run_defs = look_def run_def run_with_def upto_def notebook_def notebook_with_def
  fresh_def cell_defs Let_def analytics_def search_expression_def display_name_filter_def
  passes_def

lemma metric_definitions_accepted [simp]: "request_ok (Some metric_definitions)"
  by (simp add: metric_definitions_def metric_shape_def number_class_def)

subsection \<open>The metric-definition lists\<close>

text \<open>
  C1. Every record of the two metric-definition lists of the notebook (the example with
  train:error and validation:error, and the solution list \<^verbatim>\<open>metric_definitions\<close>) has
  exactly the two fields \<^verbatim>\<open>Name\<close> and \<^verbatim>\<open>Regex\<close>, both strings, and its pattern has
  exactly one capturing group.
\<close>

theorem metric_records_have_name_and_one_group:
  "\<forall>d \<in> set (items example_metric_definitions @ items metric_definitions). metric_record d"
  by (simp add: example_metric_definitions_def metric_definitions_def metric_record_def
      pattern_defs)

theorem metric_records_have_name_and_one_group_witness:
  "metric_record
     (PDict [(''Name'', PStr ''train:error''), (''Regex'', PStr ''Train_error=(.*?);'')])"
  using metric_records_have_name_and_one_group
  by (simp add: example_metric_definitions_def)

text \<open>
  C3. The \<^verbatim>\<open>Name\<close> fields of the records of \<^verbatim>\<open>metric_definitions\<close> are train:loss,
  train:accuracy, validation:accuracy and validation:loss, four different strings.
\<close>

theorem metric_names_distinct:
  "names metric_definitions =
     [Some ''train:loss'', Some ''train:accuracy'', Some ''validation:accuracy'',
      Some ''validation:loss''] \<and>
   distinct (names metric_definitions)"
  by (simp add: names_def metric_definitions_def)

subsection \<open>The patterns on a progress line\<close>

text \<open>The bound on the rounds of a repeat cuts nothing off: any bound from the length
  of the rest of the line on gives the same matches.\<close>

lemma rep_bound_enough:
  "length (fst x) \<le> n \<Longrightarrow> length (fst x) \<le> m \<Longrightarrow> rep f g n x = rep f g m x"
proof (induction n arbitrary: m x)
  case 0
  then show ?case by (cases m) simp_all
next
  case (Suc n)
  show ?case
  proof (cases m)
    case 0
    with Suc.prems show ?thesis by simp
  next
    case (Suc m')
    have same: "map (rep f g n) (filter (\<lambda>y. length (fst y) < length (fst x)) (f x))
        = map (rep f g m') (filter (\<lambda>y. length (fst y) < length (fst x)) (f x))"
    proof (rule map_cong [OF refl])
      fix y
      assume "y \<in> set (filter (\<lambda>y. length (fst y) < length (fst x)) (f x))"
      then have "length (fst y) < length (fst x)" by simp
      with Suc.prems \<open>m = Suc m'\<close> have "length (fst y) \<le> n" and "length (fst y) \<le> m'"
        by simp_all
      then show "rep f g n y = rep f g m' y" by (rule Suc.IH)
    qed
    show ?thesis by (simp only: \<open>m = Suc m'\<close> rep.simps same)
  qed
qed

lemma matches_lits: "matches (foldr Cat (map Lit s) r) (s @ t, k) = matches r (t, k)"
  by (induction s) (simp_all add: one_char_def)

lemma search_skip:
  "c0 \<notin> set p \<Longrightarrow> search_from (Cat (Lit c0) r) (p @ s) = search_from (Cat (Lit c0) r) s"
  by (induction p) (auto simp add: one_char_def)

lemma search_first:
  "matches r (c # cs, Map.empty) = x # xs \<Longrightarrow> search_from r (c # cs) = Some (snd x)"
  by simp

lemma rep_greedy_class:
  assumes "\<forall>c \<in> set ds. p c" and "case rest of [] \<Rightarrow> True | c # cs \<Rightarrow> \<not> p c"
    and "length ds \<le> n"
  shows "\<exists>ys. rep (one_char p) True n (ds @ rest, k) = (rest, k) # ys"
  using assms
proof (induction ds arbitrary: n)
  case Nil
  then have "one_char p (rest, k) = []"
    by (cases rest) (simp_all add: one_char_def)
  then show ?case by (cases n) simp_all
next
  case (Cons d ds)
  then obtain m where n: "n = Suc m" and m: "length ds \<le> m"
    by (cases n) auto
  from Cons.prems have step: "one_char p ((d # ds) @ rest, k) = [(ds @ rest, k)]"
    by (simp add: one_char_def)
  from Cons.IH [of m] Cons.prems m
  obtain ys where "rep (one_char p) True m (ds @ rest, k) = (rest, k) # ys"
    by auto
  with step n show ?case by simp
qed

lemma plus_class_first:
  assumes "ds \<noteq> []" and "\<forall>c \<in> set ds. in_ranges rs c"
    and "case rest of [] \<Rightarrow> True | c # cs \<Rightarrow> \<not> in_ranges rs c"
  shows "\<exists>ys. matches (Plus True (Cls rs)) (ds @ rest, k) = (rest, k) # ys"
proof -
  from assms(1) obtain e es where ds: "ds = e # es" by (cases ds) auto
  with assms(2) have step: "matches (Cls rs) (ds @ rest, k) = [(es @ rest, k)]"
    by (simp add: one_char_def)
  from assms(2,3) ds
  obtain ys where "rep (one_char (in_ranges rs)) True (length (es @ rest)) (es @ rest, k)
      = (rest, k) # ys"
    using rep_greedy_class [of es "in_ranges rs" rest "length (es @ rest)" k] by auto
  with step show ?thesis by simp
qed

lemma cat_first:
  assumes "\<exists>ys. matches a x = y # ys" and "\<exists>zs. matches b y = z # zs"
  shows "\<exists>ws. matches (Cat a b) x = z # ws"
  using assms by auto

lemma grp_first:
  assumes "\<exists>ys. matches a (s, k) = (t, k') # ys"
  shows "\<exists>ys. matches (Grp i a) (s, k) = (t, k'(i \<mapsto> take (length s - length t) s)) # ys"
  using assms by auto

lemma decimal_chars:
  assumes "decimal s"
  shows "s \<noteq> []" and "\<forall>c \<in> set s. in_ranges [(CHR ''0'', CHR ''9''), (CHR ''.'', CHR ''.'')] c"
proof -
  from assms show "s \<noteq> []" by (auto simp add: decimal_def)
  have split: "s = takeWhile digit s @ dropWhile digit s" by simp
  have "\<forall>c \<in> set (takeWhile digit s). digit c"
    by (auto dest: set_takeWhileD)
  moreover from assms have "\<forall>c \<in> set (dropWhile digit s). digit c \<or> c = CHR ''.''"
    by (auto simp add: decimal_def list_all_iff split: list.splits dest: set_dropWhileD)
  ultimately have "\<forall>c \<in> set s. digit c \<or> c = CHR ''.''"
    by (subst split) (auto simp del: takeWhile_dropWhile_id)
  then show "\<forall>c \<in> set s. in_ranges [(CHR ''0'', CHR ''9''), (CHR ''.'', CHR ''.'')] c"
    by (auto simp add: in_ranges_def digit_def)
qed

lemma group_then_number:
  assumes a: "a \<noteq> []" "\<forall>c \<in> set a. in_ranges rs c"
    and b: "b \<noteq> []" "\<forall>c \<in> set b. in_ranges rs c"
    and x: "\<not> in_ranges rs x"
    and t: "case t of [] \<Rightarrow> True | c # cs \<Rightarrow> \<not> in_ranges rs c"
  shows "\<exists>ws. matches
           (foldr Cat (map Lit s1)
              (Cat (Grp 1 (Cat (Plus True (Cls rs)) Eps))
                 (foldr Cat (map Lit (x # s2)) (Cat (Plus True (Cls rs)) Eps))))
           (s1 @ a @ (x # s2) @ b @ t, k) = (t, k(1 \<mapsto> a)) # ws"
proof -
  let ?P = "Plus True (Cls rs)"
  let ?rest = "(x # s2) @ b @ t"
  have "\<exists>ys. matches ?P (a @ ?rest, k) = (?rest, k) # ys"
    using a x by (intro plus_class_first) simp_all
  then have "\<exists>ys. matches (Cat ?P Eps) (a @ ?rest, k) = (?rest, k) # ys"
    by (rule cat_first) simp
  then have "\<exists>ys. matches (Grp 1 (Cat ?P Eps)) (a @ ?rest, k)
      = (?rest, k(1 \<mapsto> take (length (a @ ?rest) - length ?rest) (a @ ?rest))) # ys"
    by (rule grp_first)
  then have grp: "\<exists>ys. matches (Grp 1 (Cat ?P Eps)) (a @ ?rest, k) = (?rest, k(1 \<mapsto> a)) # ys"
    by simp
  have "\<exists>ys. matches ?P (b @ t, k(1 \<mapsto> a)) = (t, k(1 \<mapsto> a)) # ys"
    using b t by (intro plus_class_first)
  then have "\<exists>ys. matches (Cat ?P Eps) (b @ t, k(1 \<mapsto> a)) = (t, k(1 \<mapsto> a)) # ys"
    by (rule cat_first) simp
  then have "\<exists>ys. matches (foldr Cat (map Lit (x # s2)) (Cat ?P Eps)) (?rest, k(1 \<mapsto> a))
      = (t, k(1 \<mapsto> a)) # ys"
    by (simp only: matches_lits)
  with grp have "\<exists>ws. matches (Cat (Grp 1 (Cat ?P Eps))
      (foldr Cat (map Lit (x # s2)) (Cat ?P Eps))) (a @ ?rest, k) = (t, k(1 \<mapsto> a)) # ws"
    by (rule cat_first)
  then show ?thesis by (simp only: matches_lits)
qed

lemma number_then_group:
  assumes a: "a \<noteq> []" "\<forall>c \<in> set a. in_ranges rs c"
    and b: "b \<noteq> []" "\<forall>c \<in> set b. in_ranges rs c"
    and x: "\<not> in_ranges rs x"
    and t: "case t of [] \<Rightarrow> True | c # cs \<Rightarrow> \<not> in_ranges rs c"
  shows "\<exists>ws. matches
           (foldr Cat (map Lit s1)
              (Cat (Plus True (Cls rs))
                 (foldr Cat (map Lit (x # s2)) (Cat (Grp 1 (Cat (Plus True (Cls rs)) Eps)) Eps))))
           (s1 @ a @ (x # s2) @ b @ t, k) = (t, k(1 \<mapsto> b)) # ws"
proof -
  let ?P = "Plus True (Cls rs)"
  let ?rest = "(x # s2) @ b @ t"
  have first: "\<exists>ys. matches ?P (a @ ?rest, k) = (?rest, k) # ys"
    using a x by (intro plus_class_first) simp_all
  have "\<exists>ys. matches ?P (b @ t, k) = (t, k) # ys"
    using b t by (intro plus_class_first)
  then have "\<exists>ys. matches (Cat ?P Eps) (b @ t, k) = (t, k) # ys"
    by (rule cat_first) simp
  then have "\<exists>ys. matches (Grp 1 (Cat ?P Eps)) (b @ t, k)
      = (t, k(1 \<mapsto> take (length (b @ t) - length t) (b @ t))) # ys"
    by (rule grp_first)
  then have "\<exists>ys. matches (Grp 1 (Cat ?P Eps)) (b @ t, k) = (t, k(1 \<mapsto> b)) # ys"
    by simp
  then have "\<exists>ys. matches (Cat (Grp 1 (Cat ?P Eps)) Eps) (b @ t, k) = (t, k(1 \<mapsto> b)) # ys"
    by (rule cat_first) simp
  then have "\<exists>ys. matches (foldr Cat (map Lit (x # s2)) (Cat (Grp 1 (Cat ?P Eps)) Eps)) (?rest, k)
      = (t, k(1 \<mapsto> b)) # ys"
    by (simp only: matches_lits)
  with first have "\<exists>ws. matches (Cat ?P
      (foldr Cat (map Lit (x # s2)) (Cat (Grp 1 (Cat ?P Eps)) Eps))) (a @ ?rest, k)
        = (t, k(1 \<mapsto> b)) # ws"
    by (rule cat_first)
  then show ?thesis by (simp only: matches_lits)
qed

lemma search_after_prefix:
  assumes "c0 \<notin> set p"
    and "\<exists>ws. matches (foldr Cat (map Lit (c0 # s1)) r) ((c0 # s1) @ u, Map.empty) = (t, k) # ws"
  shows "search_from (foldr Cat (map Lit (c0 # s1)) r) (p @ (c0 # s1) @ u) = Some k"
proof -
  have "search_from (foldr Cat (map Lit (c0 # s1)) r) (p @ (c0 # s1) @ u)
      = search_from (foldr Cat (map Lit (c0 # s1)) r) ((c0 # s1) @ u)"
    using assms(1) search_skip [of c0 p "foldr Cat (map Lit s1) r" "(c0 # s1) @ u"] by simp
  also from assms(2) obtain ws where
    "matches (foldr Cat (map Lit (c0 # s1)) r) (c0 # (s1 @ u), Map.empty) = (t, k) # ws"
    by auto
  then have "search_from (foldr Cat (map Lit (c0 # s1)) r) ((c0 # s1) @ u) = Some k"
    using search_first [of "foldr Cat (map Lit (c0 # s1)) r" c0 "s1 @ u" "(t, k)" ws] by simp
  finally show ?thesis .
qed


lemma search_groupsI:
  assumes "compile_re p = Inr r" and "groups r = 1" and "search_from r line = Some k"
  shows "search_groups p line = Inr (Some [k 1])"
  using assms by (simp add: search_groups_def)

lemma compile_train_loss:
  "compile_re (''loss: ('' @ number_class @ '') - acc: '' @ number_class) =
     Inr (foldr Cat (map Lit ''loss: '')
       (Cat (Grp 1 (Cat (Plus True (Cls [(CHR ''0'', CHR ''9''), (CHR ''.'', CHR ''.'')])) Eps))
          (foldr Cat (map Lit '' - acc: '')
             (Cat (Plus True (Cls [(CHR ''0'', CHR ''9''), (CHR ''.'', CHR ''.'')])) Eps))))"
  by (simp add: pattern_defs)

lemma compile_train_accuracy:
  "compile_re (''loss: '' @ number_class @ '' - acc: ('' @ number_class @ '')'') =
     Inr (foldr Cat (map Lit ''loss: '')
       (Cat (Plus True (Cls [(CHR ''0'', CHR ''9''), (CHR ''.'', CHR ''.'')]))
          (foldr Cat (map Lit '' - acc: '')
             (Cat (Grp 1 (Cat (Plus True (Cls [(CHR ''0'', CHR ''9''), (CHR ''.'', CHR ''.'')])) Eps))
                Eps))))"
  by (simp add: pattern_defs)

lemma compile_validation_accuracy:
  "compile_re (''val_loss: '' @ number_class @ '' - val_acc: ('' @ number_class @ '')'') =
     Inr (foldr Cat (map Lit ''val_loss: '')
       (Cat (Plus True (Cls [(CHR ''0'', CHR ''9''), (CHR ''.'', CHR ''.'')]))
          (foldr Cat (map Lit '' - val_acc: '')
             (Cat (Grp 1 (Cat (Plus True (Cls [(CHR ''0'', CHR ''9''), (CHR ''.'', CHR ''.'')])) Eps))
                Eps))))"
  by (simp add: pattern_defs)

lemma compile_validation_loss:
  "compile_re (''val_loss: ('' @ number_class @ '') - val_acc: '' @ number_class) =
     Inr (foldr Cat (map Lit ''val_loss: '')
       (Cat (Grp 1 (Cat (Plus True (Cls [(CHR ''0'', CHR ''9''), (CHR ''.'', CHR ''.'')])) Eps))
          (foldr Cat (map Lit '' - val_acc: '')
             (Cat (Plus True (Cls [(CHR ''0'', CHR ''9''), (CHR ''.'', CHR ''.'')])) Eps))))"
  by (simp add: pattern_defs)

lemma space_not_number: "\<not> in_ranges [(CHR ''0'', CHR ''9''), (CHR ''.'', CHR ''.'')] CHR '' ''"
  by (simp add: in_ranges_def)

lemma v_not_number: "\<not> in_ranges [(CHR ''0'', CHR ''9''), (CHR ''.'', CHR ''.'')] CHR ''v''"
  by (simp add: in_ranges_def)

lemma train_loss_captures:
  assumes "decimal a" and "decimal b" and "CHR ''l'' \<notin> set pre"
  shows "search_groups (''loss: ('' @ number_class @ '') - acc: '' @ number_class)
           (keras_line pre a b c d) = Inr (Some [Some a])"
proof -
  let ?t = "'' - val_loss: '' @ c @ '' - val_acc: '' @ d"
  have "\<exists>ws. matches
           (foldr Cat (map Lit ''loss: '')
              (Cat (Grp 1 (Cat (Plus True (Cls [(CHR ''0'', CHR ''9''), (CHR ''.'', CHR ''.'')])) Eps))
                 (foldr Cat (map Lit '' - acc: '')
                    (Cat (Plus True (Cls [(CHR ''0'', CHR ''9''), (CHR ''.'', CHR ''.'')])) Eps))))
           (''loss: '' @ a @ '' - acc: '' @ b @ ?t, Map.empty) = (?t, [1 \<mapsto> a]) # ws"
    using decimal_chars [OF assms(1)] decimal_chars [OF assms(2)] space_not_number
    by (intro group_then_number) simp_all
  then have "search_from
           (foldr Cat (map Lit ''loss: '')
              (Cat (Grp 1 (Cat (Plus True (Cls [(CHR ''0'', CHR ''9''), (CHR ''.'', CHR ''.'')])) Eps))
                 (foldr Cat (map Lit '' - acc: '')
                    (Cat (Plus True (Cls [(CHR ''0'', CHR ''9''), (CHR ''.'', CHR ''.'')])) Eps))))
           (pre @ ''loss: '' @ a @ '' - acc: '' @ b @ ?t) = Some [1 \<mapsto> a]"
    using assms(3) by (intro search_after_prefix)
  then show ?thesis
    using search_groupsI [OF compile_train_loss, of "keras_line pre a b c d" "[1 \<mapsto> a]"]
    by (simp add: keras_line_def)
qed


lemma train_accuracy_captures:
  assumes "decimal a" and "decimal b" and "CHR ''l'' \<notin> set pre"
  shows "search_groups (''loss: '' @ number_class @ '' - acc: ('' @ number_class @ '')'')
           (keras_line pre a b c d) = Inr (Some [Some b])"
proof -
  let ?t = "'' - val_loss: '' @ c @ '' - val_acc: '' @ d"
  have "\<exists>ws. matches
           (foldr Cat (map Lit ''loss: '')
              (Cat (Plus True (Cls [(CHR ''0'', CHR ''9''), (CHR ''.'', CHR ''.'')]))
                 (foldr Cat (map Lit '' - acc: '')
                    (Cat (Grp 1 (Cat (Plus True (Cls [(CHR ''0'', CHR ''9''), (CHR ''.'', CHR ''.'')])) Eps)) Eps))))
           (''loss: '' @ a @ '' - acc: '' @ b @ ?t, Map.empty) = (?t, [1 \<mapsto> b]) # ws"
    using decimal_chars [OF assms(1)] decimal_chars [OF assms(2)] space_not_number
    by (intro number_then_group) simp_all
  then have "search_from
           (foldr Cat (map Lit ''loss: '')
              (Cat (Plus True (Cls [(CHR ''0'', CHR ''9''), (CHR ''.'', CHR ''.'')]))
                 (foldr Cat (map Lit '' - acc: '')
                    (Cat (Grp 1 (Cat (Plus True (Cls [(CHR ''0'', CHR ''9''), (CHR ''.'', CHR ''.'')])) Eps)) Eps))))
           (pre @ ''loss: '' @ a @ '' - acc: '' @ b @ ?t) = Some [1 \<mapsto> b]"
    using assms(3) by (intro search_after_prefix)
  then show ?thesis
    using search_groupsI [OF compile_train_accuracy, of "keras_line pre a b c d" "[1 \<mapsto> b]"]
    by (simp add: keras_line_def)
qed

lemma before_validation:
  assumes "decimal a" and "decimal b" and "CHR ''v'' \<notin> set pre"
  shows "CHR ''v'' \<notin> set (pre @ ''loss: '' @ a @ '' - acc: '' @ b @ '' - '')"
  using decimal_chars(2) [OF assms(1)] decimal_chars(2) [OF assms(2)] assms(3) v_not_number
  by auto

lemma validation_accuracy_captures:
  assumes "decimal a" and "decimal b" and "decimal c" and "decimal d"
    and "CHR ''v'' \<notin> set pre"
  shows "search_groups (''val_loss: '' @ number_class @ '' - val_acc: ('' @ number_class @ '')'')
           (keras_line pre a b c d) = Inr (Some [Some d])"
proof -
  let ?p = "pre @ ''loss: '' @ a @ '' - acc: '' @ b @ '' - ''"
  have "\<exists>ws. matches
           (foldr Cat (map Lit ''val_loss: '')
              (Cat (Plus True (Cls [(CHR ''0'', CHR ''9''), (CHR ''.'', CHR ''.'')]))
                 (foldr Cat (map Lit '' - val_acc: '')
                    (Cat (Grp 1 (Cat (Plus True (Cls [(CHR ''0'', CHR ''9''), (CHR ''.'', CHR ''.'')])) Eps)) Eps))))
           (''val_loss: '' @ c @ '' - val_acc: '' @ d @ [], Map.empty) = ([], [1 \<mapsto> d]) # ws"
    using decimal_chars [OF assms(3)] decimal_chars [OF assms(4)] space_not_number
    by (intro number_then_group) simp_all
  then have "search_from
           (foldr Cat (map Lit ''val_loss: '')
              (Cat (Plus True (Cls [(CHR ''0'', CHR ''9''), (CHR ''.'', CHR ''.'')]))
                 (foldr Cat (map Lit '' - val_acc: '')
                    (Cat (Grp 1 (Cat (Plus True (Cls [(CHR ''0'', CHR ''9''), (CHR ''.'', CHR ''.'')])) Eps)) Eps))))
           (?p @ ''val_loss: '' @ c @ '' - val_acc: '' @ d @ []) = Some [1 \<mapsto> d]"
    using before_validation [OF assms(1,2,5)] by (intro search_after_prefix)
  then show ?thesis
    using search_groupsI [OF compile_validation_accuracy, of "keras_line pre a b c d" "[1 \<mapsto> d]"]
    by (simp add: keras_line_def)
qed

lemma validation_loss_captures:
  assumes "decimal a" and "decimal b" and "decimal c" and "decimal d"
    and "CHR ''v'' \<notin> set pre"
  shows "search_groups (''val_loss: ('' @ number_class @ '') - val_acc: '' @ number_class)
           (keras_line pre a b c d) = Inr (Some [Some c])"
proof -
  let ?p = "pre @ ''loss: '' @ a @ '' - acc: '' @ b @ '' - ''"
  have "\<exists>ws. matches
           (foldr Cat (map Lit ''val_loss: '')
              (Cat (Grp 1 (Cat (Plus True (Cls [(CHR ''0'', CHR ''9''), (CHR ''.'', CHR ''.'')])) Eps))
                 (foldr Cat (map Lit '' - val_acc: '')
                    (Cat (Plus True (Cls [(CHR ''0'', CHR ''9''), (CHR ''.'', CHR ''.'')])) Eps))))
           (''val_loss: '' @ c @ '' - val_acc: '' @ d @ [], Map.empty) = ([], [1 \<mapsto> c]) # ws"
    using decimal_chars [OF assms(3)] decimal_chars [OF assms(4)] space_not_number
    by (intro group_then_number) simp_all
  then have "search_from
           (foldr Cat (map Lit ''val_loss: '')
              (Cat (Grp 1 (Cat (Plus True (Cls [(CHR ''0'', CHR ''9''), (CHR ''.'', CHR ''.'')])) Eps))
                 (foldr Cat (map Lit '' - val_acc: '')
                    (Cat (Plus True (Cls [(CHR ''0'', CHR ''9''), (CHR ''.'', CHR ''.'')])) Eps))))
           (?p @ ''val_loss: '' @ c @ '' - val_acc: '' @ d @ []) = Some [1 \<mapsto> c]"
    using before_validation [OF assms(1,2,5)] by (intro search_after_prefix)
  then show ?thesis
    using search_groupsI [OF compile_validation_loss, of "keras_line pre a b c d" "[1 \<mapsto> c]"]
    by (simp add: keras_line_def)
qed

text \<open>
  C2. On a Keras epoch progress line that carries \<^verbatim>\<open>loss: a - acc: b - val_loss: c - val_acc: d\<close>
  with well-formed decimal numbers \<open>a\<close>, \<open>b\<close>, \<open>c\<close>, \<open>d\<close> (after a progress prefix with
  no letter l or v in it), each of the four patterns of \<^verbatim>\<open>metric_definitions\<close> matches,
  and its match has exactly one group: the number of its metric, which is a well-formed
  decimal number.
\<close>

theorem keras_line_captures:
  assumes "decimal a" and "decimal b" and "decimal c" and "decimal d"
    and "CHR ''l'' \<notin> set pre" and "CHR ''v'' \<notin> set pre"
  shows "captures metric_definitions (keras_line pre a b c d) =
     [Some (Inr (Some [Some a])), Some (Inr (Some [Some b])), Some (Inr (Some [Some d])),
      Some (Inr (Some [Some c]))]"
  using train_loss_captures [OF assms(1,2,5)] train_accuracy_captures [OF assms(1,2,5)]
    validation_accuracy_captures [OF assms(1,2,3,4,6)] validation_loss_captures [OF assms(1,2,3,4,6)]
  by (simp add: captures_def metric_definitions_def)

theorem keras_line_captures_witness:
  "captures metric_definitions
     (''50000/50000 [==============================] - 12s 240us/step - ''
      @ ''loss: 1.2345 - acc: 0.5678 - val_loss: 1.0123 - val_acc: 0.6543'') =
     [Some (Inr (Some [Some ''1.2345''])), Some (Inr (Some [Some ''0.5678''])),
      Some (Inr (Some [Some ''0.6543''])), Some (Inr (Some [Some ''1.0123'']))] \<and>
   decimal ''1.2345'' \<and> decimal ''0.5678'' \<and> decimal ''0.6543'' \<and> decimal ''1.0123''"
  using keras_line_captures [of "''1.2345''" "''0.5678''" "''1.0123''" "''0.6543''"
      "''50000/50000 [==============================] - 12s 240us/step - ''"]
  by (simp add: keras_line_def decimal_def digit_def)

subsection \<open>The list on its way to the job\<close>

lemma cells_keep_metric_definitions:
  "c \<in> set (tl (notebook w h)) \<Longrightarrow> c s = Inr s' \<Longrightarrow>
     v_metric_definitions s' = v_metric_definitions s"
  by (auto simp add: notebook_def notebook_with_def cell_defs Let_def
      split: option.splits if_splits)

text \<open>
  C4. Between the cell that writes the list and the job launch nothing changes it: at
  the end of a run the variable still holds the literal, the estimator of the first
  submitted job carries the literal as its \<^verbatim>\<open>metric_definitions\<close> argument, and every
  cell after the first leaves the variable as it found it, in any state.
\<close>

theorem metric_definitions_reach_job_unchanged:
  "look v_metric_definitions (run w h) = Some (Some metric_definitions) \<and>
   look (\<lambda>s. map (\<lambda>c. metric_definitions_arg (fit_estimator c)) (take 1 (submitted s))) (run w h)
     = Some [Some metric_definitions] \<and>
   (\<forall>c \<in> set (tl (notebook w h)). \<forall>s s'.
      c s = Inr s' \<longrightarrow> v_metric_definitions s' = v_metric_definitions s)"
proof (intro conjI ballI allI impI)
  show "look v_metric_definitions (run w h) = Some (Some metric_definitions)"
    by (simp add: run_defs)
  show "look (\<lambda>s. map (\<lambda>c. metric_definitions_arg (fit_estimator c)) (take 1 (submitted s)))
          (run w h) = Some [Some metric_definitions]"
    by (simp add: run_defs submitted_def)
next
  fix c s s'
  assume "c \<in> set (tl (notebook w h))" and "c s = Inr s'"
  then show "v_metric_definitions s' = v_metric_definitions s"
    by (rule cells_keep_metric_definitions)
qed

theorem metric_definitions_reach_job_unchanged_witness:
  "look v_metric_definitions (run sample_world sample_holes) = Some (Some metric_definitions) \<and>
   (\<exists>s'. cell_session sample_world
            ((fresh sample_world)\<lparr>v_metric_definitions := Some metric_definitions\<rparr>) = Inr s' \<and>
          v_metric_definitions s' = Some metric_definitions)"
proof -
  let ?s = "(fresh sample_world)\<lparr>v_metric_definitions := Some metric_definitions\<rparr>"
  have member: "cell_session sample_world \<in> set (tl (notebook sample_world sample_holes))"
    by (simp add: notebook_def notebook_with_def)
  obtain s' where ran: "cell_session sample_world ?s = Inr s'"
    by (simp add: cell_session_def)
  from metric_definitions_reach_job_unchanged [of sample_world sample_holes] member ran
  have "look v_metric_definitions (run sample_world sample_holes) = Some (Some metric_definitions)"
    and "v_metric_definitions s' = v_metric_definitions ?s"
    by blast+
  with ran show ?thesis by simp
qed

text \<open>
  C5, as stated: whatever list stands in the place of the notebook's, also one with a
  defective pattern, no operation raises a local error and the job is submitted as
  before. It is not so for a list with an empty pattern (a pattern with no group): the
  request check of \<^verbatim>\<open>estimator.fit\<close> refuses it on the spot.
\<close>

theorem empty_regex_raises_locally:
  "raised (run_with empty_regex_metric_definitions sample_world sample_holes)
     = Some ParamValidationError \<and>
   look out (run_with empty_regex_metric_definitions sample_world sample_holes)
     \<noteq> look out (run sample_world sample_holes)"
  by (simp add: run_defs raised_def empty_regex_metric_definitions_def metric_shape_def)

lemma run_with_accepted:
  assumes "request_ok (Some md)"
  shows "raised (run_with md w h) = None"
    and "look without_metrics (run_with md w h) = look without_metrics (run w h)"
    and "look out (run_with md w h) = look out (run w h)"
  using assms
  by (simp_all add: run_defs raised_def without_metrics_def drop_metrics_def)

lemma run_with_refused:
  assumes "\<not> request_ok (Some md)"
  shows "raised (run_with md w h) = Some ParamValidationError"
  using assms by (simp add: run_defs raised_def)

text \<open>
  C5, amended: for every list that has the shape of a request (records of a non-empty
  \<^verbatim>\<open>Name\<close> and a non-empty \<^verbatim>\<open>Regex\<close> string), also one with a malformed pattern or
  a pattern with another number of groups, no operation reads the patterns or raises
  anything: the run differs from the run of the notebook as written only in the copies
  of the list, with the same calls, the same other arguments and the same displayed
  output. A list of another shape is refused by the request check of the first
  \<^verbatim>\<open>estimator.fit\<close>, which raises \<^verbatim>\<open>ParamValidationError\<close>.
\<close>

theorem regex_defects_not_observed_locally:
  "(request_ok (Some md) \<longrightarrow>
      raised (run_with md w h) = None \<and>
      look without_metrics (run_with md w h) = look without_metrics (run w h) \<and>
      look out (run_with md w h) = look out (run w h)) \<and>
   (\<not> request_ok (Some md) \<longrightarrow> raised (run_with md w h) = Some ParamValidationError) \<and>
   request_ok (Some defective_metric_definitions) \<and>
   map (\<lambda>d. map_option capture_groups (str_field d ''Regex'')) (items defective_metric_definitions)
     = [Some None, Some (Some 2)]"
proof (intro conjI impI)
  show "request_ok (Some defective_metric_definitions)"
    by (simp add: defective_metric_definitions_def metric_shape_def)
  show "map (\<lambda>d. map_option capture_groups (str_field d ''Regex''))
          (items defective_metric_definitions) = [Some None, Some (Some 2)]"
    by (simp add: defective_metric_definitions_def pattern_defs)
qed (simp_all add: run_with_accepted run_with_refused)

theorem regex_defects_not_observed_locally_witness:
  "request_ok (Some defective_metric_definitions) \<and>
   raised (run_with defective_metric_definitions sample_world sample_holes) = None \<and>
   look out (run_with defective_metric_definitions sample_world sample_holes)
     = look out (run sample_world sample_holes) \<and>
   \<not> request_ok (Some empty_regex_metric_definitions) \<and>
   raised (run_with empty_regex_metric_definitions sample_world sample_holes)
     = Some ParamValidationError"
proof -
  have refused: "\<not> request_ok (Some empty_regex_metric_definitions)"
    by (simp add: empty_regex_metric_definitions_def metric_shape_def)
  from regex_defects_not_observed_locally [of defective_metric_definitions sample_world sample_holes]
    regex_defects_not_observed_locally [of empty_regex_metric_definitions sample_world sample_holes]
    refused
  show ?thesis by blast
qed

subsection \<open>The two job submissions\<close>

lemma fit_error_same: "fit w None s = Inl e \<Longrightarrow> fit w b s = Inl e"
  by (auto simp add: fit_def experiment_config_def var_def and_then_def
      split: option.splits if_splits)

lemma fit_differs_in_wait:
  assumes "fit w None s = Inr s1"
  shows "\<exists>c. calls s1 = calls s @ [JobSubmitted c] \<and> fit_wait c = None \<and>
           fit w b s = Inr (s1\<lparr>calls := calls s @ [JobSubmitted (c\<lparr>fit_wait := b\<rparr>)]\<rparr>)"
  using assms
  by (auto simp add: fit_def experiment_config_def var_def and_then_def
      split: option.splits if_splits)

text \<open>
  C6. The two job submissions of the notebook differ in the keyword \<^verbatim>\<open>wait\<close> alone:
  the first call leaves it out and blocks, the second passes \<^verbatim>\<open>wait=False\<close> and does
  not wait. From any state the two cells raise the same exception or make the same call
  with the same effect, apart from the flag of the call.
\<close>

theorem fit_calls_differ_in_wait_only:
  "look (\<lambda>s. map fit_wait (submitted s)) (run w h) = Some [None, Some False] \<and>
   look (\<lambda>s. map blocking (submitted s)) (run w h) = Some [True, False] \<and>
   look (\<lambda>s. map fit_inputs (submitted s)) (run w h) = Some [inputs, inputs] \<and>
   (\<forall>s e. cell_fit_1 w s = Inl e \<longrightarrow> cell_fit_2 w s = Inl e) \<and>
   (\<forall>s s1. cell_fit_1 w s = Inr s1 \<longrightarrow>
      (\<exists>c. calls s1 = calls s @ [JobSubmitted c] \<and> fit_wait c = None \<and>
           cell_fit_2 w s =
             Inr (s1\<lparr>calls := calls s @ [JobSubmitted (c\<lparr>fit_wait := Some False\<rparr>)]\<rparr>)))"
proof (intro conjI allI impI)
  show "look (\<lambda>s. map fit_wait (submitted s)) (run w h) = Some [None, Some False]"
    by (simp add: run_defs submitted_def)
  show "look (\<lambda>s. map blocking (submitted s)) (run w h) = Some [True, False]"
    by (simp add: run_defs submitted_def blocking_def)
  show "look (\<lambda>s. map fit_inputs (submitted s)) (run w h) = Some [inputs, inputs]"
    by (simp add: run_defs submitted_def)
next
  fix s e assume "cell_fit_1 w s = Inl e"
  then show "cell_fit_2 w s = Inl e"
    unfolding cell_fit_1_def cell_fit_2_def by (rule fit_error_same)
next
  fix s s1 assume "cell_fit_1 w s = Inr s1"
  then show "\<exists>c. calls s1 = calls s @ [JobSubmitted c] \<and> fit_wait c = None \<and>
           cell_fit_2 w s =
             Inr (s1\<lparr>calls := calls s @ [JobSubmitted (c\<lparr>fit_wait := Some False\<rparr>)]\<rparr>)"
    unfolding cell_fit_1_def cell_fit_2_def by (rule fit_differs_in_wait)
qed

theorem fit_calls_differ_in_wait_only_witness:
  "\<exists>s s1 c. upto 6 sample_world sample_holes = Inr s \<and> cell_fit_1 sample_world s = Inr s1 \<and>
      calls s1 = calls s @ [JobSubmitted c] \<and> fit_wait c = None \<and>
      cell_fit_2 sample_world s =
        Inr (s1\<lparr>calls := calls s @ [JobSubmitted (c\<lparr>fit_wait := Some False\<rparr>)]\<rparr>)"
proof -
  obtain s est where s: "upto 6 sample_world sample_holes = Inr s" and
      ready: "v_estimator s = Some est" "metric_definitions_arg est = Some metric_definitions"
        "v_cifar10_experiment s \<noteq> None" "v_trial s \<noteq> None"
    by (simp add: run_defs)
  then obtain s1 where s1: "cell_fit_1 sample_world s = Inr s1"
    by (auto simp add: cell_fit_1_def fit_def experiment_config_def var_def and_then_def)
  with fit_calls_differ_in_wait_only [of sample_world sample_holes] s show ?thesis by blast
qed

subsection \<open>The trials\<close>

lemma digit_nth: "k < 10 \<Longrightarrow> digit (''0123456789'' ! k)"
proof -
  assume "k < 10"
  then have "k \<in> {0, 1, 2, 3, 4, 5, 6, 7, 8, 9}" by auto
  then show ?thesis by (auto simp add: digit_def)
qed

lemma str_nat_digits: "str_nat n \<noteq> [] \<and> list_all digit (str_nat n)"
proof (induction n rule: str_nat.induct)
  case (1 n)
  show ?case
  proof (cases "n < 10")
    case True
    then show ?thesis by (subst (1 2) str_nat.simps) (simp add: digit_nth)
  next
    case False
    with 1 have "list_all digit (str_nat (n div 10))" by simp
    moreover have "digit (''0123456789'' ! (n mod 10))" by (rule digit_nth) simp
    ultimately show ?thesis using False by (subst (1 2) str_nat.simps) simp
  qed
qed

lemma integer_text_str_int: "integer_text (str_int i)"
proof (cases "i < 0")
  case True
  then show ?thesis using str_nat_digits [of "nat (- i)"]
    by (simp add: integer_text_def str_int_def)
next
  case False
  then show ?thesis using str_nat_digits [of "nat i"]
    by (cases "str_nat (nat i)") (auto simp add: integer_text_def str_int_def digit_def)
qed

lemma py_int_truncates:
  "\<bar>real_of_int (py_int t)\<bar> \<le> \<bar>t\<bar> \<and> \<bar>t\<bar> < \<bar>real_of_int (py_int t)\<bar> + 1 \<and>
   0 \<le> t * real_of_int (py_int t)"
proof (cases "t < 0")
  case True
  then have "real_of_int \<lceil>t\<rceil> \<le> 0" by (simp add: ceiling_le_zero)
  moreover have "t \<le> real_of_int \<lceil>t\<rceil>" and "real_of_int \<lceil>t\<rceil> < t + 1" by linarith+
  ultimately show ?thesis using True
    by (simp add: py_int_def mult_nonpos_nonpos)
next
  case False
  then have "0 \<le> real_of_int \<lfloor>t\<rfloor>" by simp
  moreover have "real_of_int \<lfloor>t\<rfloor> \<le> t" and "t < real_of_int \<lfloor>t\<rfloor> + 1" by linarith+
  ultimately show ?thesis using False
    by (simp add: py_int_def)
qed

lemma digit_value_nth: "k < 10 \<Longrightarrow> digit_value (''0123456789'' ! k) = k"
proof -
  assume "k < 10"
  then have "k \<in> {0, 1, 2, 3, 4, 5, 6, 7, 8, 9}" by auto
  then show ?thesis by (auto simp add: digit_value_def)
qed

lemma nat_of_text_snoc: "nat_of_text (s @ [c]) = 10 * nat_of_text s + digit_value c"
  by (simp add: nat_of_text_def)

lemma nat_of_text_str_nat: "nat_of_text (str_nat n) = n"
proof (induction n rule: str_nat.induct)
  case (1 n)
  show ?case
  proof (cases "n < 10")
    case True
    then show ?thesis
      by (subst str_nat.simps) (simp add: nat_of_text_def digit_value_nth)
  next
    case False
    with 1 have "nat_of_text (str_nat (n div 10)) = n div 10" by simp
    moreover have "digit_value (''0123456789'' ! (n mod 10)) = n mod 10"
      by (rule digit_value_nth) simp
    ultimately show ?thesis using False
      by (subst str_nat.simps) (simp add: nat_of_text_snoc)
  qed
qed

lemma int_of_text_str_int: "int_of_text (str_int i) = i"
proof (cases "i < 0")
  case True
  then show ?thesis
    by (simp add: int_of_text_def str_int_def nat_of_text_str_nat)
next
  case False
  obtain c cs where shape: "str_nat (nat i) = c # cs" and "digit c"
    using str_nat_digits [of "nat i"] by (cases "str_nat (nat i)") auto
  then have "c \<noteq> CHR ''-''" by (auto simp add: digit_def)
  with False shape nat_of_text_str_nat [of "nat i"] show ?thesis
    by (simp add: int_of_text_def str_int_def)
qed

text \<open>
  C8. The run loads one experiment, under the name \<^verbatim>\<open>TensorFlow-cifar10-experiment\<close>, and
  creates two trials. Both are created with the name of the loaded experiment, and the
  name of each is \<^verbatim>\<open>cifar10-training-job-\<close> followed by the whole seconds of the clock
  reading in decimal: \<open>py_int\<close> cuts the fraction of the reading off (towards zero),
  \<open>str_int\<close> prints an integer's text that reads back as the same integer. With the
  clock at 1604370000.73 and 600 seconds later, the names are
  \<^verbatim>\<open>cifar10-training-job-1604370000\<close> and \<^verbatim>\<open>cifar10-training-job-1604370600\<close>.
\<close>

theorem trials_attached_to_loaded_experiment:
  "look loaded_experiments (run w h) = Some [''TensorFlow-cifar10-experiment''] \<and>
   look created_trials (run w h) =
     Some [(''cifar10-training-job-'' @ str_int (py_int (w_time w 0)),
            experiment_name (w_experiment w ''TensorFlow-cifar10-experiment'')),
           (''cifar10-training-job-'' @ str_int (py_int (w_time w 1)),
            experiment_name (w_experiment w ''TensorFlow-cifar10-experiment''))] \<and>
   (\<forall>t. integer_text (str_int (py_int t))) \<and>
   (\<forall>t. \<bar>real_of_int (py_int t)\<bar> \<le> \<bar>t\<bar> \<and> \<bar>t\<bar> < \<bar>real_of_int (py_int t)\<bar> + 1 \<and>
        0 \<le> t * real_of_int (py_int t)) \<and>
   (\<forall>i. int_of_text (str_int i) = i) \<and>
   look created_trials (run sample_world sample_holes) =
     Some [(''cifar10-training-job-1604370000'', ''TensorFlow-cifar10-experiment''),
           (''cifar10-training-job-1604370600'', ''TensorFlow-cifar10-experiment'')]"
proof (intro conjI allI)
  show "look loaded_experiments (run w h) = Some [''TensorFlow-cifar10-experiment'']"
    by (simp add: run_defs loaded_experiments_def)
  show "look created_trials (run w h) =
     Some [(''cifar10-training-job-'' @ str_int (py_int (w_time w 0)),
            experiment_name (w_experiment w ''TensorFlow-cifar10-experiment'')),
           (''cifar10-training-job-'' @ str_int (py_int (w_time w 1)),
            experiment_name (w_experiment w ''TensorFlow-cifar10-experiment''))]"
    by (simp add: run_defs created_trials_def)
  show "integer_text (str_int (py_int t))" for t
    by (rule integer_text_str_int)
  show "\<bar>real_of_int (py_int t)\<bar> \<le> \<bar>t\<bar>" "\<bar>t\<bar> < \<bar>real_of_int (py_int t)\<bar> + 1"
    "0 \<le> t * real_of_int (py_int t)" for t
    using py_int_truncates [of t] by simp_all
  show "int_of_text (str_int i) = i" for i
    by (rule int_of_text_str_int)
  show "look created_trials (run sample_world sample_holes) =
     Some [(''cifar10-training-job-1604370000'', ''TensorFlow-cifar10-experiment''),
           (''cifar10-training-job-1604370600'', ''TensorFlow-cifar10-experiment'')]"
    by (simp add: run_defs created_trials_def sample_world_def sample_holes_def str_int_def
        py_int_def str_nat.simps)
qed

subsection \<open>The links\<close>

text \<open>
  C10. The CloudWatch link, as the eighth code cell leaves it, is a fixed prefix, the
  region of the session, a fixed query fragment and the name of the latest training job
  (the first job submitted). Two runs with the same region and job name build the same
  link, whatever else differs.
\<close>

theorem cloudwatch_link_determined_by_region_and_job:
  "look v_link (upto 8 w h) =
     Some (Some (''https://console.aws.amazon.com/cloudwatch/home?region='' @ w_region w
        @ ''#metricsV2:query=%7B/aws/sagemaker/TrainingJobs,TrainingJobName%7D%20''
        @ fst (w_job w 0))) \<and>
   look (\<lambda>s. map_option boto_region_name (v_sagemaker_session s)) (upto 8 w h)
     = Some (Some (w_region w)) \<and>
   look (\<lambda>s. map_option latest_training_job (v_estimator s)) (upto 8 w h)
     = Some (Some (Some \<lparr>job_name = fst (w_job w 0)\<rparr>)) \<and>
   (w_region w = w_region w' \<and> fst (w_job w 0) = fst (w_job w' 0) \<longrightarrow>
      look v_link (upto 8 w h) = look v_link (upto 8 w' h'))"
  by (simp add: run_defs)

theorem cloudwatch_link_determined_by_region_and_job_witness:
  "w_region sample_world = w_region (sample_world\<lparr>w_upload := ''s3://elsewhere'', w_time := (\<lambda>k. 7)\<rparr>) \<and>
   look v_link (upto 8 sample_world sample_holes) =
   look v_link (upto 8 (sample_world\<lparr>w_upload := ''s3://elsewhere'', w_time := (\<lambda>k. 7)\<rparr>)
                  (sample_holes\<lparr>h_estimator_1 := h_estimator_2 sample_holes\<rparr>))"
proof -
  let ?w = "sample_world\<lparr>w_upload := ''s3://elsewhere'', w_time := (\<lambda>k. 7)\<rparr>"
  have same: "w_region sample_world = w_region ?w \<and> fst (w_job sample_world 0) = fst (w_job ?w 0)"
    by simp
  with cloudwatch_link_determined_by_region_and_job [of sample_world sample_holes ?w "sample_holes\<lparr>h_estimator_1 := h_estimator_2 sample_holes\<rparr>"]
  show ?thesis by blast
qed

text \<open>
  C7. The TensorBoard command the run displays sets \<^verbatim>\<open>AWS_REGION\<close> to the region of the
  session and gives \<^verbatim>\<open>--logdir\<close> the \<^verbatim>\<open>model_dir\<close> of the estimator, which at that
  cell is the estimator of the job launched last.
\<close>

theorem tensorboard_command_points_at_job:
  "look v_link (run w h) =
     Some (Some (''AWS_REGION='' @ [quote] @ w_region w @ [quote] @ '' tensorboard --logdir ''
                 @ snd (w_job w 1))) \<and>
   look (\<lambda>s. map_option boto_region_name (v_sagemaker_session s)) (run w h)
     = Some (Some (w_region w)) \<and>
   look (\<lambda>s. map_option model_dir (v_estimator s)) (run w h) = Some (Some (snd (w_job w 1))) \<and>
   look (\<lambda>s. map_option latest_training_job (v_estimator s)) (run w h)
     = Some (Some (Some \<lparr>job_name = fst (w_job w 1)\<rparr>)) \<and>
   look (\<lambda>s. out s ! 3) (run w h) =
     Some (Markdown (''TensorBoard command: AWS_REGION='' @ [quote] @ w_region w @ [quote]
                 @ '' tensorboard --logdir '' @ snd (w_job w 1)))"
  by (simp add: run_defs)

subsection \<open>The analytics query\<close>

text \<open>
  C9, as stated: the analytics query retrieves exactly the trial components the training
  runs of the notebook created. It does not, when the loaded experiment already holds a
  component of the display name \<^verbatim>\<open>Training\<close>: the query selects by experiment and
  display name, not by run.
\<close>

theorem analytics_not_only_notebook_components:
  "look v_table (run sample_world sample_holes)
     \<noteq> look (\<lambda>s. Some (trained sample_world s)) (run sample_world sample_holes)"
  by (simp add: run_defs trained_def sample_world_def earlier_component_def)

text \<open>
  C9, amended: the filter of the search expression is \<^verbatim>\<open>DisplayName Equals Training\<close>,
  the display name both submitted calls give to their trial component; the query
  retrieves the components of the loaded experiment that had this display name before
  the run, followed by the two components the run created.
\<close>

theorem analytics_retrieves_training_components:
  "map (\<lambda>f. (str_field f ''Name'', str_field f ''Operator'', str_field f ''Value''))
       (filters search_expression) = [(Some ''DisplayName'', Some ''Equals'', Some ''Training'')] \<and>
   look (\<lambda>s. map (\<lambda>c. str_field (fit_experiment_config c) ''TrialComponentDisplayName'')
                (submitted s)) (run w h) = Some [Some ''Training'', Some ''Training''] \<and>
   look v_table (run w h) =
     look (\<lambda>s. Some (filter (\<lambda>c. tc_experiment c
                  = Some (experiment_name (w_experiment w ''TensorFlow-cifar10-experiment''))
                  \<and> tc_display_name c = Some ''Training'') (w_components w)
                @ trained w s)) (run w h) \<and>
   look (trained w) (run w h) =
     Some [\<lparr>tc_experiment = Some (experiment_name (w_experiment w ''TensorFlow-cifar10-experiment'')),
            tc_trial = Some (''cifar10-training-job-'' @ str_int (py_int (w_time w 0))),
            tc_display_name = Some ''Training'', tc_job = fst (w_job w 0)\<rparr>,
           \<lparr>tc_experiment = Some (experiment_name (w_experiment w ''TensorFlow-cifar10-experiment'')),
            tc_trial = Some (''cifar10-training-job-'' @ str_int (py_int (w_time w 1))),
            tc_display_name = Some ''Training'', tc_job = fst (w_job w 1)\<rparr>]"
proof (intro conjI)
  show "map (\<lambda>f. (str_field f ''Name'', str_field f ''Operator'', str_field f ''Value''))
       (filters search_expression) = [(Some ''DisplayName'', Some ''Equals'', Some ''Training'')]"
    by (simp add: search_expression_def)
  show "look (\<lambda>s. map (\<lambda>c. str_field (fit_experiment_config c) ''TrialComponentDisplayName'')
                (submitted s)) (run w h) = Some [Some ''Training'', Some ''Training'']"
    by (simp add: run_defs submitted_def)
qed (simp_all add: run_defs trained_def)

end
